theory Spec2Isabelle
  imports Complex_Main "HOL-Library.AList"
begin

section \<open>Strings\<close>

text \<open>
  Display names are modelled as ASCII strings (the English names of the upstream API are
  ASCII); \<open>lower\<close> maps the letters A to Z to a to z and leaves every other character as it is.
\<close>

definition lower_char :: "char \<Rightarrow> char" where
  "lower_char c =
     (if (65::nat) \<le> of_char c \<and> of_char c \<le> (90::nat)
      then char_of (of_char c + (32::nat)) else c)"

definition lower :: "string \<Rightarrow> string" where
  "lower s = map lower_char s"

fun startswith :: "string \<Rightarrow> string \<Rightarrow> bool" where
  "startswith s [] = True"
| "startswith [] (p # ps) = False"
| "startswith (c # cs) (p # ps) = (c = p \<and> startswith cs ps)"

text \<open>\<open>contains sub s\<close> is Python's \<open>sub in s\<close>.\<close>

fun contains :: "string \<Rightarrow> string \<Rightarrow> bool" where
  "contains sub [] = (sub = [])"
| "contains sub (c # cs) = (startswith (c # cs) sub \<or> contains sub cs)"

text \<open>
  \<open>str.replace\<close> with a non-empty pattern \<open>p # ps\<close>: the occurrences are found from the
  left and do not overlap.
\<close>

fun replace_ne :: "char \<Rightarrow> string \<Rightarrow> string \<Rightarrow> string \<Rightarrow> string" where
  "replace_ne p ps new [] = []"
| "replace_ne p ps new (c # cs) =
     (if startswith (c # cs) (p # ps)
      then new @ replace_ne p ps new (drop (length ps) cs)
      else c # replace_ne p ps new cs)"

definition replace :: "string \<Rightarrow> string \<Rightarrow> string \<Rightarrow> string" where
  "replace s old new =
     (case old of
        [] \<Rightarrow> new @ concat (map (\<lambda>c. c # new) s)
      | p # ps \<Rightarrow> replace_ne p ps new s)"

text \<open>\<open>str.strip(chars)\<close>: drop leading and trailing characters that are in \<open>chars\<close>.\<close>

definition strip :: "string \<Rightarrow> string \<Rightarrow> string" where
  "strip s chars =
     rev (dropWhile (\<lambda>c. c \<in> set chars) (rev (dropWhile (\<lambda>c. c \<in> set chars) s)))"

section \<open>Data model (models.py)\<close>

text \<open>
  The raw \<open>name\<close> field of a series object: a mapping from language code to display
  string, a sequence of raw values, or any other JSON value.
\<close>

datatype raw_name =
    Mapping "(string \<times> string) list"
  | Sequence "raw_name list"
  | Other

text \<open>A float of the source is modelled as an exact rational; \<open>None\<close> is an absent value.\<close>

record EnergyDataSeries =
  name :: "(string \<times> string) list"
  color :: string
  data :: "rat option list"
  timestamps :: "int list"
  visible :: bool

text \<open>One object of the raw API response; a key that is missing is \<open>None\<close>.\<close>

record raw_item =
  item_name :: "raw_name option"
  item_color :: "string option"
  item_data :: "rat option list option"
  item_xAxisValues :: "int list option"
  item_visible :: "bool option"

datatype exc =
    EnergyChartsConnectionError
  | EnergyChartsDataError
  | EnergyChartsTimeoutError
  | EnergyChartsNotFoundError
  | ValidationError
  | TypeError

text \<open>
  \<open>normalize_name\<close> runs before validation: a non-empty list gives its first element,
  a dict is kept, anything else gives the empty dict.
\<close>

fun normalize_name :: "raw_name \<Rightarrow> raw_name" where
  "normalize_name (Sequence (x # xs)) = x"
| "normalize_name (Mapping d) = Mapping d"
| "normalize_name v = Mapping []"

text \<open>
  Construction of a series: the normalized name must validate as a dict of strings,
  otherwise the constructor raises.
\<close>

definition make_series ::
  "raw_name \<Rightarrow> string \<Rightarrow> rat option list \<Rightarrow> int list \<Rightarrow> bool \<Rightarrow> exc + EnergyDataSeries" where
  "make_series n c d ts v =
     (case normalize_name n of
        Mapping m \<Rightarrow> Inr \<lparr>name = m, color = c, data = d, timestamps = ts, visible = v\<rparr>
      | _ \<Rightarrow> Inl ValidationError)"

definition dict_get :: "('k \<times> 'v) list \<Rightarrow> 'k \<Rightarrow> 'v \<Rightarrow> 'v" where
  "dict_get d k dflt = (case map_of d k of None \<Rightarrow> dflt | Some v \<Rightarrow> v)"

definition name_en :: "EnergyDataSeries \<Rightarrow> string" where
  "name_en s = dict_get (name s) ''en'' ''Unknown''"

definition name_de :: "EnergyDataSeries \<Rightarrow> string" where
  "name_de s = dict_get (name s) ''de'' ''Unbekannt''"

text \<open>The loop \<open>while "__" in key: key = key.replace("__", "_")\<close>.\<close>

function dedup_underscores :: "string \<Rightarrow> string" where
  "dedup_underscores k =
     (if contains ''__'' k then dedup_underscores (replace k ''__'' ''_'') else k)"
  by pat_completeness auto

lemma length_replace_uu_le:
  "length (replace_ne CHR ''_'' ''_'' ''_'' k) \<le> length k"
  by (induction "CHR ''_''" "''_''" "''_''" k rule: replace_ne.induct)
     (auto intro: le_trans[OF _ le_SucI])

lemma length_replace_uu_less:
  "contains ''__'' k \<Longrightarrow> length (replace_ne CHR ''_'' ''_'' ''_'' k) < length k"
proof (induction k)
  case Nil
  then show ?case by simp
next
  case (Cons c cs)
  show ?case
  proof (cases "startswith (c # cs) ''__''")
    case True
    have "length (replace_ne CHR ''_'' ''_'' ''_'' (drop 1 cs)) \<le> length (drop 1 cs)"
      by (rule length_replace_uu_le)
    moreover from True have "cs \<noteq> []" by (cases cs) auto
    ultimately show ?thesis using True by (cases cs) auto
  next
    case False
    with Cons.prems have "contains ''__'' cs" by auto
    from Cons.IH[OF this] False show ?thesis by auto
  qed
qed

termination dedup_underscores
  by (relation "measure length") (auto simp: replace_def length_replace_uu_less)

text \<open>The property \<open>key\<close>: the source key derived from the English name.\<close>

definition key :: "EnergyDataSeries \<Rightarrow> string" where
  "key s =
     (let name0 = lower (name_en s);
          k = replace (replace (replace (replace (replace (replace name0
                '' '' ''_'') ''/'' ''_'') ''-'' ''_'') ''('' []) '')'' []) '','' []
      in strip (dedup_underscores k) ''_'')"

text \<open>
  \<open>datetime.fromtimestamp(x)\<close> is kept symbolic: the datetime of \<open>x\<close> seconds after the
  epoch. Timestamps beyond the range of the library's datetime, on which it raises, are
  not modelled.
\<close>

datatype datetime = FromTimestamp rat

definition fromtimestamp_ms :: "int \<Rightarrow> datetime" where
  "fromtimestamp_ms ts = FromTimestamp (of_int ts / 1000)"

fun first_not_none :: "'a option list \<Rightarrow> 'a option" where
  "first_not_none [] = None"
| "first_not_none (None # vs) = first_not_none vs"
| "first_not_none (Some v # vs) = Some v"

definition latest_value :: "EnergyDataSeries \<Rightarrow> rat option" where
  "latest_value s = first_not_none (rev (data s))"

text \<open>
  The loop \<open>for i in range(len(data) - 1, -1, -1)\<close>: \<open>latest_timestamp_from s n\<close>
  has the indices below \<open>n\<close> left to visit.
\<close>

fun latest_timestamp_from :: "EnergyDataSeries \<Rightarrow> nat \<Rightarrow> datetime option" where
  "latest_timestamp_from s 0 = None"
| "latest_timestamp_from s (Suc i) =
     (if data s ! i \<noteq> None \<and> i < length (timestamps s)
      then Some (fromtimestamp_ms (timestamps s ! i))
      else latest_timestamp_from s i)"

definition latest_timestamp :: "EnergyDataSeries \<Rightarrow> datetime option" where
  "latest_timestamp s =
     (if timestamps s = [] \<or> data s = [] then None
      else latest_timestamp_from s (length (data s)))"

text \<open>\<open>get_data_points\<close>: the loop over \<open>enumerate(self.data)\<close>, from index \<open>i\<close> on.\<close>

fun data_points_from :: "int list \<Rightarrow> nat \<Rightarrow> rat option list \<Rightarrow> (datetime \<times> rat) list" where
  "data_points_from ts i [] = []"
| "data_points_from ts i (v # vs) =
     (case v of
        Some x \<Rightarrow>
          (if i < length ts then (fromtimestamp_ms (ts ! i), x) # data_points_from ts (Suc i) vs
           else data_points_from ts (Suc i) vs)
      | None \<Rightarrow> data_points_from ts (Suc i) vs)"

definition get_data_points :: "EnergyDataSeries \<Rightarrow> (datetime \<times> rat) list" where
  "get_data_points s = data_points_from (timestamps s) 0 (data s)"

record EnergyChartsResponse =
  data_series :: "EnergyDataSeries list"

text \<open>
  The loop of \<open>from_api_response\<close> over the raw objects: an object without \<open>name\<close> or
  \<open>data\<close> is skipped, the first constructor that raises ends the loop.
\<close>

fun parse_items :: "int list \<Rightarrow> raw_item list \<Rightarrow> exc + EnergyDataSeries list" where
  "parse_items ts [] = Inr []"
| "parse_items ts (item # items) =
     (case (item_name item, item_data item) of
        (Some n, Some d) \<Rightarrow>
          (case make_series n
                  (case item_color item of None \<Rightarrow> ''#000000'' | Some c \<Rightarrow> c)
                  d ts
                  (case item_visible item of None \<Rightarrow> True | Some v \<Rightarrow> v) of
             Inl e \<Rightarrow> Inl e
           | Inr s \<Rightarrow>
               (case parse_items ts items of
                  Inl e \<Rightarrow> Inl e
                | Inr ss \<Rightarrow> Inr (s # ss)))
      | _ \<Rightarrow> parse_items ts items)"

definition from_api_response :: "raw_item list \<Rightarrow> exc + EnergyChartsResponse" where
  "from_api_response response_data =
     (case response_data of
        [] \<Rightarrow> Inr \<lparr>data_series = []\<rparr>
      | first # _ \<Rightarrow>
          (case parse_items
                  (case item_xAxisValues first of None \<Rightarrow> [] | Some ts \<Rightarrow> ts)
                  response_data of
             Inl e \<Rightarrow> Inl e
           | Inr ss \<Rightarrow> Inr \<lparr>data_series = ss\<rparr>))"

section \<open>API client (api.py)\<close>

definition API_BASE_URL :: string where
  "API_BASE_URL = ''https://www.energy-charts.info/charts/power/data''"

definition API_TIMEOUT :: int where
  "API_TIMEOUT = 30"

text \<open>
  What one \<open>session.get\<close> inside the \<open>try\<close> block comes to: the status is 404, the
  request times out, aiohttp raises a client error (a connection error, or an error status
  other than 404 from \<open>raise_for_status\<close>), the JSON body is not a list, some other
  exception is raised, or the JSON body is a list.
\<close>

datatype http_outcome =
    Status404
  | AsyncioTimeout
  | AiohttpClientError
  | BodyNotList
  | OtherException
  | BodyList "raw_item list"

text \<open>
  The network: the outcome of a GET, given how many GETs the client has issued before and
  the URL requested.
\<close>

type_synonym session = "nat \<Rightarrow> string \<Rightarrow> http_outcome"

record EnergyChartsApiClient =
  client_session :: session
  client_country :: string
  client_base_url :: string

definition init_client :: "session \<Rightarrow> string \<Rightarrow> EnergyChartsApiClient" where
  "init_client sess country =
     \<lparr>client_session = sess, client_country = lower country, client_base_url = API_BASE_URL\<rparr>"

text \<open>
  The effects of the client: every GET issued, with its URL and its total timeout, and
  every \<open>asyncio.sleep\<close>, with its duration, in order.
\<close>

record io_state =
  gets :: "(string \<times> int) list"
  sleeps :: "rat list"

text \<open>
  One pass through the \<open>try\<close> block: \<open>Inl\<close> leaves \<open>_make_request\<close> (a returned body, or
  the 404 error raised again), \<open>Inr\<close> is the new \<open>last_exception\<close>.
\<close>

fun try_request :: "http_outcome \<Rightarrow> (exc + raw_item list) + exc" where
  "try_request Status404 = Inl (Inl EnergyChartsNotFoundError)"
| "try_request (BodyList d) = Inl (Inr d)"
| "try_request AsyncioTimeout = Inr EnergyChartsTimeoutError"
| "try_request AiohttpClientError = Inr EnergyChartsConnectionError"
| "try_request BodyNotList = Inr EnergyChartsDataError"
| "try_request OtherException = Inr EnergyChartsDataError"

text \<open>The loop \<open>for attempt in range(retries)\<close>, from \<open>attempt\<close> on.\<close>

function attempts ::
  "session \<Rightarrow> string \<Rightarrow> int \<Rightarrow> rat \<Rightarrow> nat \<Rightarrow> exc option \<Rightarrow> io_state
     \<Rightarrow> (exc + raw_item list) \<times> io_state" where
  "attempts sess url retries backoff_factor attempt last_exception st =
     (if int attempt < retries then
        (let st1 = st\<lparr>gets := gets st @ [(url, API_TIMEOUT * (int attempt + 1))]\<rparr>
         in case try_request (sess (length (gets st)) url) of
              Inl result \<Rightarrow> (result, st1)
            | Inr e \<Rightarrow>
                attempts sess url retries backoff_factor (Suc attempt) (Some e)
                  (if int attempt < retries - 1
                   then st1\<lparr>sleeps := sleeps st1 @ [backoff_factor * 2 ^ attempt]\<rparr>
                   else st1))
      else
        (case last_exception of
           Some e \<Rightarrow> (Inl e, st)
         | None \<Rightarrow> (Inl EnergyChartsConnectionError, st)))"
  by pat_completeness auto
termination
  by (relation "measure (\<lambda>(sess, url, retries, backoff_factor, attempt, last_exception, st).
        nat (retries - int attempt))") auto

definition request_url :: "EnergyChartsApiClient \<Rightarrow> string \<Rightarrow> string" where
  "request_url c endpoint = client_base_url c @ ''/'' @ client_country c @ ''/'' @ endpoint"

definition make_request ::
  "EnergyChartsApiClient \<Rightarrow> string \<Rightarrow> int \<Rightarrow> rat \<Rightarrow> io_state
     \<Rightarrow> (exc + raw_item list) \<times> io_state" where
  "make_request c endpoint retries backoff_factor st =
     attempts (client_session c) (request_url c endpoint) retries backoff_factor 0 None st"

text \<open>Decimal output of integers: \<open>str(i)\<close> and the format \<open>{i:02d}\<close>.\<close>

fun str_nat :: "nat \<Rightarrow> string" where
  "str_nat n =
     (if n < 10 then [char_of (48 + n)]
      else str_nat (n div 10) @ [char_of (48 + n mod 10)])"

definition str_int :: "int \<Rightarrow> string" where
  "str_int i = (if i < 0 then ''-'' @ str_nat (nat (- i)) else str_nat (nat i))"

definition format_02d :: "int \<Rightarrow> string" where
  "format_02d i = (if 0 \<le> i \<and> i < 10 then ''0'' @ str_int i else str_int i)"

text \<open>
  One reading of \<open>datetime.now()\<close>: the instant, with the calendar fields the client
  takes from it.
\<close>

record clock_reading =
  now_instant :: datetime
  now_year :: int
  now_month :: int
  now_isocalendar :: "int \<times> int \<times> int"

definition get_current_day ::
  "EnergyChartsApiClient \<Rightarrow> clock_reading \<Rightarrow> io_state
     \<Rightarrow> (exc + EnergyChartsResponse) \<times> io_state" where
  "get_current_day c now st =
     (case now_isocalendar now of
        (year, week, _) \<Rightarrow>
          (case make_request c (''week_'' @ str_int year @ ''_'' @ format_02d week @ ''.json'')
                  3 1 st of
             (Inl e, st') \<Rightarrow> (Inl e, st')
           | (Inr d, st') \<Rightarrow> (from_api_response d, st')))"

definition get_current_week ::
  "EnergyChartsApiClient \<Rightarrow> clock_reading \<Rightarrow> io_state
     \<Rightarrow> (exc + EnergyChartsResponse) \<times> io_state" where
  "get_current_week c now st =
     (case now_isocalendar now of
        (year, week, _) \<Rightarrow>
          (case make_request c (''week_'' @ str_int year @ ''_'' @ format_02d week @ ''.json'')
                  3 1 st of
             (Inl e, st') \<Rightarrow> (Inl e, st')
           | (Inr d, st') \<Rightarrow> (from_api_response d, st')))"

definition get_current_month ::
  "EnergyChartsApiClient \<Rightarrow> clock_reading \<Rightarrow> io_state
     \<Rightarrow> (exc + EnergyChartsResponse) \<times> io_state" where
  "get_current_month c now st =
     (case make_request c
             (''month_'' @ str_int (now_year now) @ ''_'' @ format_02d (now_month now) @ ''.json'')
             3 1 st of
        (Inl e, st') \<Rightarrow> (Inl e, st')
      | (Inr d, st') \<Rightarrow> (from_api_response d, st'))"

section \<open>Constants (const.py)\<close>

definition CONF_HISTORICAL_RANGE :: string where
  "CONF_HISTORICAL_RANGE = ''historical_data_range''"

definition HISTORICAL_RANGE_NONE :: string where
  "HISTORICAL_RANGE_NONE = ''none''"

definition CATEGORY_RENEWABLE :: string where
  "CATEGORY_RENEWABLE = ''renewable''"

definition CATEGORY_FOSSIL :: string where
  "CATEGORY_FOSSIL = ''fossil''"

definition CATEGORY_NUCLEAR :: string where
  "CATEGORY_NUCLEAR = ''nuclear''"

definition CATEGORY_STORAGE :: string where
  "CATEGORY_STORAGE = ''storage''"

definition FOSSIL_SOURCES :: "string list" where
  "FOSSIL_SOURCES =
     [''fossil_brown_coal_lignite'', ''fossil_brown_coal/lignite'', ''fossil_hard_coal'',
      ''fossil_coal-derived_gas'', ''fossil_gas'', ''fossil_oil'']"

definition SOURCE_CATEGORIES :: "(string \<times> string) list" where
  "SOURCE_CATEGORIES =
     [(''hydro_run-of-river'', CATEGORY_RENEWABLE),
      (''biomass'', CATEGORY_RENEWABLE),
      (''wind_offshore'', CATEGORY_RENEWABLE),
      (''wind_onshore'', CATEGORY_RENEWABLE),
      (''photovoltaic'', CATEGORY_RENEWABLE),
      (''solar'', CATEGORY_RENEWABLE),
      (''hydro_water_reservoir'', CATEGORY_RENEWABLE),
      (''geothermal'', CATEGORY_RENEWABLE),
      (''fossil_brown_coal_lignite'', CATEGORY_FOSSIL),
      (''fossil_brown_coal/lignite'', CATEGORY_FOSSIL),
      (''fossil_hard_coal'', CATEGORY_FOSSIL),
      (''fossil_coal-derived_gas'', CATEGORY_FOSSIL),
      (''fossil_gas'', CATEGORY_FOSSIL),
      (''fossil_oil'', CATEGORY_FOSSIL),
      (''nuclear'', CATEGORY_NUCLEAR),
      (''hydro_pumped_storage'', CATEGORY_STORAGE),
      (''battery'', CATEGORY_STORAGE),
      (''battery_storage'', CATEGORY_STORAGE)]"

definition SENSOR_TOTAL_PRODUCTION :: string where
  "SENSOR_TOTAL_PRODUCTION = ''total_production''"

definition SENSOR_TOTAL_RENEWABLE :: string where
  "SENSOR_TOTAL_RENEWABLE = ''total_renewable''"

definition SENSOR_RENEWABLE_SHARE :: string where
  "SENSOR_RENEWABLE_SHARE = ''renewable_share''"

definition SENSOR_TOTAL_FOSSIL :: string where
  "SENSOR_TOTAL_FOSSIL = ''total_fossil''"

definition SENSOR_TOTAL_NUCLEAR :: string where
  "SENSOR_TOTAL_NUCLEAR = ''total_nuclear''"

definition SENSOR_SOLAR_TOTAL :: string where
  "SENSOR_SOLAR_TOTAL = ''solar_total''"

definition SENSOR_WIND_TOTAL :: string where
  "SENSOR_WIND_TOTAL = ''wind_total''"

definition SENSOR_HYDRO_TOTAL :: string where
  "SENSOR_HYDRO_TOTAL = ''hydro_total''"

definition SENSOR_FOSSIL_TOTAL :: string where
  "SENSOR_FOSSIL_TOTAL = ''fossil_total''"

section \<open>Coordinator (coordinator.py)\<close>

text \<open>
  \<open>round(x, ndigits)\<close> on exact values: to the nearest multiple of \<open>10 ^ - ndigits\<close>, a
  tie to the even one.
\<close>

definition round_half_even :: "rat \<Rightarrow> int" where
  "round_half_even x =
     (let f = \<lfloor>x\<rfloor>; d = x - of_int f
      in if d < 1 / 2 then f else if 1 / 2 < d then f + 1 else if even f then f else f + 1)"

definition py_round :: "rat \<Rightarrow> nat \<Rightarrow> rat" where
  "py_round x ndigits = of_int (round_half_even (x * 10 ^ ndigits)) / 10 ^ ndigits"

text \<open>The per-source dict that \<open>_process_response\<close> builds.\<close>

record source_data =
  src_value :: "rat option"
  src_unit :: string
  src_timestamp :: "datetime option"
  src_name_en :: string
  src_name_de :: string
  src_color :: string
  src_category :: string
  src_key :: string

text \<open>A dict keeps its keys in insertion order; assigning to a key that is present keeps its place.\<close>

type_synonym 'v dict = "(string \<times> 'v) list"

record snapshot =
  timestamp :: datetime
  raw_response :: EnergyChartsResponse
  sources :: "source_data dict"
  aggregated :: "rat dict"
  categories :: "rat dict"
  history :: "(datetime \<times> rat) list dict"
  forecasts :: "(datetime \<times> rat) list dict"

text \<open>
  The loop of \<open>_calculate_aggregated\<close>, with the four running totals (production,
  renewable, fossil, nuclear).
\<close>

fun aggregate_loop ::
  "source_data dict \<Rightarrow> rat \<times> rat \<times> rat \<times> rat \<Rightarrow> rat \<times> rat \<times> rat \<times> rat" where
  "aggregate_loop [] totals = totals"
| "aggregate_loop ((source_key, sd) # rest)
       (total_production, total_renewable, total_fossil, total_nuclear) =
     (case src_value sd of
        None \<Rightarrow>
          aggregate_loop rest (total_production, total_renewable, total_fossil, total_nuclear)
      | Some v \<Rightarrow>
          (let total_production' = (if v > 0 then total_production + v else total_production)
           in if src_category sd = CATEGORY_RENEWABLE then
                aggregate_loop rest
                  (total_production', total_renewable + v, total_fossil, total_nuclear)
              else if src_category sd = CATEGORY_FOSSIL then
                aggregate_loop rest
                  (total_production', total_renewable, total_fossil + v, total_nuclear)
              else if src_category sd = CATEGORY_NUCLEAR then
                aggregate_loop rest
                  (total_production', total_renewable, total_fossil, total_nuclear + v)
              else
                aggregate_loop rest
                  (total_production', total_renewable, total_fossil, total_nuclear)))"

definition calculate_aggregated :: "source_data dict \<Rightarrow> rat dict" where
  "calculate_aggregated srcs =
     (case aggregate_loop srcs (0, 0, 0, 0) of
        (total_production, total_renewable, total_fossil, total_nuclear) \<Rightarrow>
          [(SENSOR_TOTAL_PRODUCTION, py_round total_production 2),
           (SENSOR_TOTAL_RENEWABLE, py_round total_renewable 2),
           (SENSOR_TOTAL_FOSSIL, py_round total_fossil 2),
           (SENSOR_TOTAL_NUCLEAR, py_round total_nuclear 2),
           (SENSOR_RENEWABLE_SHARE,
              if total_production > 0
              then py_round (total_renewable / total_production * 100) 2
              else 0)])"

text \<open>
  One category loop of \<open>_calculate_categories\<close>: a member key adds its value when it is
  in the dict and its value is truthy (neither \<open>None\<close> nor zero).
\<close>

fun category_loop :: "source_data dict \<Rightarrow> string list \<Rightarrow> rat \<Rightarrow> rat" where
  "category_loop srcs [] acc = acc"
| "category_loop srcs (k # ks) acc =
     (case map_of srcs k of
        None \<Rightarrow> category_loop srcs ks acc
      | Some sd \<Rightarrow>
          (case src_value sd of
             None \<Rightarrow> category_loop srcs ks acc
           | Some v \<Rightarrow>
               if v \<noteq> 0 then category_loop srcs ks (acc + v)
               else category_loop srcs ks acc))"

definition calculate_categories :: "source_data dict \<Rightarrow> rat dict" where
  "calculate_categories srcs =
     [(SENSOR_SOLAR_TOTAL, py_round (category_loop srcs [''photovoltaic'', ''solar''] 0) 2),
      (SENSOR_WIND_TOTAL, py_round (category_loop srcs [''wind_onshore'', ''wind_offshore''] 0) 2),
      (SENSOR_HYDRO_TOTAL,
         py_round (category_loop srcs
           [''hydro_run-of-river'', ''hydro_water_reservoir'', ''hydro_pumped_storage''] 0) 2),
      (SENSOR_FOSSIL_TOTAL, py_round (category_loop srcs FOSSIL_SOURCES 0) 2)]"

text \<open>The loop of \<open>_process_response\<close> over the series.\<close>

fun sources_loop :: "EnergyDataSeries list \<Rightarrow> source_data dict \<Rightarrow> source_data dict" where
  "sources_loop [] srcs = srcs"
| "sources_loop (series # rest) srcs =
     (let source_key = lower (key series)
      in if contains ''_planned'' source_key \<or> contains ''forecast'' source_key
         then sources_loop rest srcs
         else sources_loop rest
                (AList.update source_key
                   \<lparr>src_value = latest_value series,
                    src_unit = ''MW'',
                    src_timestamp = latest_timestamp series,
                    src_name_en = name_en series,
                    src_name_de = name_de series,
                    src_color = color series,
                    src_category = dict_get SOURCE_CATEGORIES source_key ''other'',
                    src_key = source_key\<rparr>
                   srcs))"

definition process_response :: "clock_reading \<Rightarrow> EnergyChartsResponse \<Rightarrow> snapshot" where
  "process_response now response =
     (let srcs = sources_loop (data_series response) []
      in \<lparr>timestamp = now_instant now,
          raw_response = response,
          sources = srcs,
          aggregated = calculate_aggregated srcs,
          categories = calculate_categories srcs,
          history = [],
          forecasts = []\<rparr>)"

text \<open>
  The target \<open>ts, val\<close> of the comprehension in \<open>_fetch_historical_data\<close> unpacks one
  element of \<open>series.data\<close>. The elements are floats or \<open>None\<close>, neither of which can be
  unpacked: the unpacking raises \<open>TypeError\<close>.
\<close>

definition unpack_ts_val :: "rat option \<Rightarrow> exc + (int \<times> rat option)" where
  "unpack_ts_val x = Inl TypeError"

text \<open>The list comprehension over \<open>series.data\<close>.\<close>

fun history_points :: "rat option list \<Rightarrow> exc + (datetime \<times> rat) list" where
  "history_points [] = Inr []"
| "history_points (x # xs) =
     (case unpack_ts_val x of
        Inl e \<Rightarrow> Inl e
      | Inr (ts, val) \<Rightarrow>
          (case val of
             None \<Rightarrow> history_points xs
           | Some v \<Rightarrow>
               (case history_points xs of
                  Inl e \<Rightarrow> Inl e
                | Inr points \<Rightarrow> Inr ((fromtimestamp_ms ts, v) # points))))"

text \<open>
  The loop over the series inside the \<open>try\<close> block: it ends with the exception raised, if
  any, and the history filled so far.
\<close>

fun history_loop ::
  "EnergyDataSeries list \<Rightarrow> (datetime \<times> rat) list dict
     \<Rightarrow> exc option \<times> (datetime \<times> rat) list dict" where
  "history_loop [] hist = (None, hist)"
| "history_loop (series # rest) hist =
     (case history_points (data series) of
        Inl e \<Rightarrow> (Some e, hist)
      | Inr points \<Rightarrow> history_loop rest (AList.update (lower (key series)) points hist))"

text \<open>
  \<open>_fetch_historical_data\<close>: an exception of the fetch or of the loop is caught and
  logged, and the history filled so far is returned.
\<close>

definition fetch_historical_data ::
  "EnergyChartsApiClient \<Rightarrow> clock_reading \<Rightarrow> string \<Rightarrow> io_state
     \<Rightarrow> (datetime \<times> rat) list dict \<times> io_state" where
  "fetch_historical_data c now historical_range st =
     (case (if historical_range = ''day'' then Some (get_current_day c now st)
            else if historical_range = ''week'' then Some (get_current_week c now st)
            else if historical_range = ''month'' then Some (get_current_month c now st)
            else None) of
        None \<Rightarrow> ([], st)
      | Some (Inl e, st') \<Rightarrow> ([], st')
      | Some (Inr response, st') \<Rightarrow> (snd (history_loop (data_series response) []), st'))"

datatype update_failed = UpdateFailed exc

text \<open>
  \<open>_async_update_data\<close>, with the three readings of the clock it makes: for the day
  fetch, for the timestamp of the snapshot and for the historical fetch.
\<close>

definition async_update_data ::
  "EnergyChartsApiClient \<Rightarrow> (string \<times> string) list
     \<Rightarrow> clock_reading \<Rightarrow> clock_reading \<Rightarrow> clock_reading \<Rightarrow> io_state
     \<Rightarrow> (update_failed + snapshot) \<times> io_state" where
  "async_update_data c entry_data now_fetch now_process now_history st =
     (case get_current_day c now_fetch st of
        (Inl err, st') \<Rightarrow> (Inl (UpdateFailed err), st')
      | (Inr response, st') \<Rightarrow>
          (let structured_data = process_response now_process response;
               historical_range = dict_get entry_data CONF_HISTORICAL_RANGE HISTORICAL_RANGE_NONE
           in if historical_range \<noteq> HISTORICAL_RANGE_NONE
              then (case fetch_historical_data c now_history historical_range st' of
                      (hist, st'') \<Rightarrow> (Inr (structured_data\<lparr>history := hist\<rparr>), st''))
              else (Inr structured_data, st')))"

section \<open>Reference definitions for the key derivation\<close>

definition isalnum :: "char \<Rightarrow> bool" where
  "isalnum c =
     (let n = (of_char c :: nat)
      in (48 \<le> n \<and> n \<le> 57) \<or> (65 \<le> n \<and> n \<le> 90) \<or> (97 \<le> n \<and> n \<le> 122))"

text \<open>Every run of underscores becomes a single underscore.\<close>

fun squeeze_underscores :: "string \<Rightarrow> string" where
  "squeeze_underscores (a # b # cs) =
     (if a = CHR ''_'' \<and> b = CHR ''_'' then squeeze_underscores (b # cs)
      else a # squeeze_underscores (b # cs))"
| "squeeze_underscores cs = cs"

text \<open>
  The key as the specification words it: lowercased, every run of non-alphanumeric
  characters collapsed to one underscore, leading and trailing underscores trimmed.
\<close>

function collapse_nonalnum :: "string \<Rightarrow> string" where
  "collapse_nonalnum [] = []"
| "collapse_nonalnum (c # cs) =
     (if isalnum c then c # collapse_nonalnum cs
      else CHR ''_'' # collapse_nonalnum (dropWhile (\<lambda>x. \<not> isalnum x) cs))"
  by pat_completeness auto
termination
  by (relation "measure length") (auto simp: le_imp_less_Suc length_dropWhile_le)

definition key_as_specified :: "string \<Rightarrow> string" where
  "key_as_specified n = strip (collapse_nonalnum (lower n)) ''_''"

text \<open>A series that has only an English name.\<close>

definition series_named :: "string \<Rightarrow> EnergyDataSeries" where
  "series_named n =
     \<lparr>name = [(''en'', n)], color = ''#000000'', data = [], timestamps = [], visible = True\<rparr>"

section \<open>Reference definitions for the response normalizer\<close>

text \<open>The \<open>xAxisValues\<close> of the first raw object, empty when there is none.\<close>

definition first_xAxisValues :: "raw_item list \<Rightarrow> int list" where
  "first_xAxisValues response_data =
     (case response_data of
        [] \<Rightarrow> []
      | first # _ \<Rightarrow> (case item_xAxisValues first of None \<Rightarrow> [] | Some ts \<Rightarrow> ts))"

text \<open>A response of three objects: the second has neither name nor data.\<close>

definition two_series_response :: "raw_item list" where
  "two_series_response =
     [\<lparr>item_name = Some (Sequence [Mapping [(''en'', ''Solar'')]]), item_color = None,
       item_data = Some [Some 10, None], item_xAxisValues = Some [1000, 2000],
       item_visible = None\<rparr>,
      \<lparr>item_name = None, item_color = None,
       item_data = None, item_xAxisValues = None, item_visible = None\<rparr>,
      \<lparr>item_name = Some (Mapping [(''en'', ''Wind onshore'')]), item_color = Some ''#00f'',
       item_data = Some [None, Some 5], item_xAxisValues = None,
       item_visible = Some False\<rparr>]"

definition two_series_parsed :: "EnergyDataSeries list" where
  "two_series_parsed =
     [\<lparr>name = [(''en'', ''Solar'')], color = ''#000000'', data = [Some 10, None],
       timestamps = [1000, 2000], visible = True\<rparr>,
      \<lparr>name = [(''en'', ''Wind onshore'')], color = ''#00f'', data = [None, Some 5],
       timestamps = [1000, 2000], visible = False\<rparr>]"

section \<open>Example sessions and clock readings\<close>

definition always_404 :: session where
  "always_404 = (\<lambda>n url. Status404)"

definition two_timeouts_then :: "raw_item list \<Rightarrow> session" where
  "two_timeouts_then d = (\<lambda>n url. if n < 2 then AsyncioTimeout else BodyList d)"

definition idle :: io_state where
  "idle = \<lparr>gets = [], sleeps = []\<rparr>"

definition monday_week_7 :: clock_reading where
  "monday_week_7 =
     \<lparr>now_instant = FromTimestamp 1739180000, now_year = 2025, now_month = 2,
      now_isocalendar = (2025, 7, 1)\<rparr>"

section \<open>Reference definitions for the aggregation\<close>

text \<open>A series with an English name, values and timestamps.\<close>

definition series_with :: "string \<Rightarrow> rat option list \<Rightarrow> int list \<Rightarrow> EnergyDataSeries" where
  "series_with n vs ts =
     \<lparr>name = [(''en'', n)], color = ''#000000'', data = vs, timestamps = ts, visible = True\<rparr>"


text \<open>The sum of the positive values.\<close>

definition production_sum :: "source_data dict \<Rightarrow> rat" where
  "production_sum srcs =
     sum_list (map (\<lambda>(k, sd). case src_value sd of
                                 None \<Rightarrow> 0
                               | Some v \<Rightarrow> if v > 0 then v else 0) srcs)"

text \<open>The sum of the values of one category, whatever their sign.\<close>

definition category_sum :: "string \<Rightarrow> source_data dict \<Rightarrow> rat" where
  "category_sum cat srcs =
     sum_list (map (\<lambda>(k, sd). case src_value sd of
                                 None \<Rightarrow> 0
                               | Some v \<Rightarrow> if src_category sd = cat then v else 0) srcs)"

definition negative_sources :: "source_data dict" where
  "negative_sources =
     sources_loop
       [series_with ''Solar'' [Some (- 10)] [1000],
        series_with ''Fossil gas'' [Some 20] [1000]] []"



section \<open>Reference definitions for the refresh\<close>

text \<open>A response with one series, and sessions that serve it.\<close>

definition solar_response :: "raw_item list" where
  "solar_response =
     [\<lparr>item_name = Some (Mapping [(''en'', ''Solar'')]), item_color = Some ''#ffcc00'',
       item_data = Some [Some 10], item_xAxisValues = Some [1000], item_visible = Some True\<rparr>]"

definition always_solar :: session where
  "always_solar = (\<lambda>n url. BodyList solar_response)"


text \<open>
  The history as the specification words it: each series' source key with the
  (timestamp, value) pairs of that series, in order, absent values dropped.
\<close>

definition history_as_specified :: "EnergyChartsResponse \<Rightarrow> (datetime \<times> rat) list dict" where
  "history_as_specified response =
     map (\<lambda>series. (lower (key series), get_data_points series)) (data_series response)"

definition solar_parsed :: EnergyChartsResponse where
  "solar_parsed =
     \<lparr>data_series =
        [\<lparr>name = [(''en'', ''Solar'')], color = ''#ffcc00'', data = [Some 10],
          timestamps = [1000], visible = True\<rparr>]\<rparr>"

section \<open>Verified properties\<close>

subsection \<open>The source key\<close>

lemma startswith_iff: "startswith s p \<longleftrightarrow> (\<exists>r. s = p @ r)"
  by (induction s p rule: startswith.induct) auto

lemma contains_iff: "contains sub s \<longleftrightarrow> (\<exists>ps ss. s = ps @ sub @ ss)"
proof (induction s)
  case Nil
  then show ?case by auto
next
  case (Cons c cs)
  show ?case
  proof
    assume "contains sub (c # cs)"
    then consider "startswith (c # cs) sub" | "contains sub cs" by auto
    then show "\<exists>ps ss. c # cs = ps @ sub @ ss"
    proof cases
      case 1
      then obtain r where "c # cs = sub @ r" by (auto simp: startswith_iff)
      then have "c # cs = [] @ sub @ r" by simp
      then show ?thesis by blast
    next
      case 2
      with Cons.IH obtain ps ss where "cs = ps @ sub @ ss" by blast
      then have "c # cs = (c # ps) @ sub @ ss" by simp
      then show ?thesis by blast
    qed
  next
    assume "\<exists>ps ss. c # cs = ps @ sub @ ss"
    then obtain ps ss where e: "c # cs = ps @ sub @ ss" by blast
    show "contains sub (c # cs)"
    proof (cases ps)
      case Nil
      with e have "startswith (c # cs) sub" by (auto simp: startswith_iff)
      then show ?thesis by simp
    next
      case (Cons p ps')
      with e have "cs = ps' @ sub @ ss" by simp
      with Cons.IH have "contains sub cs" by blast
      then show ?thesis by simp
    qed
  qed
qed

lemma replace_char_char: "replace s [c] [d] = map (\<lambda>x. if x = c then d else x) s"
  by (induction s) (auto simp: replace_def)

lemma replace_char_empty: "replace s [c] [] = filter (\<lambda>x. x \<noteq> c) s"
  by (induction s) (auto simp: replace_def)


declare dedup_underscores.simps [simp del]

lemma squeeze_Cons:
  "squeeze_underscores (x # ys) =
     (if ys \<noteq> [] \<and> x = CHR ''_'' \<and> hd ys = CHR ''_'' then squeeze_underscores ys
      else x # squeeze_underscores ys)"
  by (cases ys) auto

lemma squeeze_eq_Nil [simp]: "squeeze_underscores k = [] \<longleftrightarrow> k = []"
  by (induction k rule: squeeze_underscores.induct) auto

lemma hd_squeeze [simp]: "hd (squeeze_underscores k) = hd k"
  by (induction k rule: squeeze_underscores.induct) auto

lemma replace_uu_eq_Nil [simp]: "replace_ne CHR ''_'' ''_'' ''_'' k = [] \<longleftrightarrow> k = []"
  by (cases k) auto

lemma hd_replace_uu [simp]: "hd (replace_ne CHR ''_'' ''_'' ''_'' k) = hd k"
  by (cases k) auto

lemma squeeze_replace_uu:
  "squeeze_underscores (replace_ne CHR ''_'' ''_'' ''_'' k) = squeeze_underscores k"
proof (induction "CHR ''_''" "''_''" "''_''" k rule: replace_ne.induct)
  case 1
  then show ?case by simp
next
  case (2 c cs)
  show ?case
  proof (cases "startswith (c # cs) ''__''")
    case True
    then obtain cs' where cs: "cs = CHR ''_'' # cs'" and c: "c = CHR ''_''"
      by (cases cs) auto
    from 2(1)[OF True] cs
    have ih: "squeeze_underscores (replace_ne CHR ''_'' ''_'' ''_'' cs') = squeeze_underscores cs'"
      by simp
    show ?thesis
      unfolding cs c using ih by (simp add: squeeze_Cons)
  next
    case False
    from 2(2)[OF False]
    have ih: "squeeze_underscores (replace_ne CHR ''_'' ''_'' ''_'' cs) = squeeze_underscores cs" .
    from False have "replace_ne CHR ''_'' ''_'' ''_'' (c # cs) = c # replace_ne CHR ''_'' ''_'' ''_'' cs"
      by auto
    then show ?thesis using ih False by (cases cs) (auto simp add: squeeze_Cons)
  qed
qed

lemma squeeze_id: "\<not> contains ''__'' k \<Longrightarrow> squeeze_underscores k = k"
  by (induction k rule: squeeze_underscores.induct) auto

lemma dedup_underscores_squeeze: "dedup_underscores k = squeeze_underscores k"
proof (induction k rule: dedup_underscores.induct)
  case (1 k)
  show ?case
  proof (cases "contains ''__'' k")
    case True
    then have "dedup_underscores k = dedup_underscores (replace k ''__'' ''_'')"
      by (subst dedup_underscores.simps) simp
    also have "\<dots> = squeeze_underscores (replace k ''__'' ''_'')"
      using 1 True by simp
    also have "\<dots> = squeeze_underscores k"
      by (simp add: replace_def squeeze_replace_uu)
    finally show ?thesis .
  next
    case False
    then have "dedup_underscores k = k"
      by (subst dedup_underscores.simps) simp
    with False show ?thesis by (simp add: squeeze_id)
  qed
qed

lemma no_uu_squeeze: "\<not> contains ''__'' (squeeze_underscores k)"
proof (induction k rule: squeeze_underscores.induct)
  case (1 a b cs)
  show ?case
  proof (cases "a = CHR ''_'' \<and> b = CHR ''_''")
    case True
    with 1 show ?thesis by simp
  next
    case False
    with 1 have ih: "\<not> contains ''__'' (squeeze_underscores (b # cs))" by simp
    have ne: "squeeze_underscores (b # cs) \<noteq> []" by simp
    then obtain y ys where y: "squeeze_underscores (b # cs) = y # ys"
      by (cases "squeeze_underscores (b # cs)") auto
    have "hd (squeeze_underscores (b # cs)) = b" by simp
    with y have "y = b" by simp
    with False ih y show ?thesis by auto
  qed
qed auto

lemma rev_dropWhile_split:
  "t = rev (dropWhile P (rev t)) @ rev (takeWhile P (rev t))"
  by (metis rev_append rev_rev_ident takeWhile_dropWhile_id)

lemma set_strip: "set (strip s chs) \<subseteq> set s"
  unfolding strip_def
  by (metis (no_types, lifting) set_dropWhileD set_rev subsetI)

lemma strip_infix: "\<exists>ps ss. s = ps @ strip s chs @ ss"
proof -
  let ?P = "\<lambda>c. c \<in> set chs"
  let ?t = "dropWhile ?P s"
  have "s = takeWhile ?P s @ ?t" by simp
  moreover have "?t = strip s chs @ rev (takeWhile ?P (rev ?t))"
    unfolding strip_def by (rule rev_dropWhile_split)
  ultimately have "s = takeWhile ?P s @ strip s chs @ rev (takeWhile ?P (rev ?t))"
    by simp
  then show ?thesis by blast
qed

lemma contains_strip: "contains sub (strip s chs) \<Longrightarrow> contains sub s"
proof -
  assume "contains sub (strip s chs)"
  then obtain ps ss where a: "strip s chs = ps @ sub @ ss" by (auto simp: contains_iff)
  obtain ps' ss' where "s = ps' @ strip s chs @ ss'" using strip_infix by blast
  with a have "s = (ps' @ ps) @ sub @ (ss @ ss')" by simp
  then show ?thesis unfolding contains_iff by blast
qed

lemma strip_no_leading: "\<not> startswith (strip s [c]) [c]"
proof -
  let ?P = "\<lambda>x. x \<in> set [c]"
  let ?t = "dropWhile ?P s"
  have t: "?t = strip s [c] @ rev (takeWhile ?P (rev ?t))"
    unfolding strip_def by (rule rev_dropWhile_split)
  show ?thesis
  proof
    assume "startswith (strip s [c]) [c]"
    then obtain r where r: "strip s [c] = c # r" by (auto simp: startswith_iff)
    with t have "?t = c # (r @ rev (takeWhile ?P (rev ?t)))" by simp
    then have "hd ?t = c" and "?t \<noteq> []" by (metis list.sel(1), metis list.distinct(1))
    then show False using hd_dropWhile[of ?P s] by simp
  qed
qed

lemma strip_no_trailing: "\<not> startswith (rev (strip s [c])) [c]"
proof
  let ?P = "\<lambda>x. x \<in> set [c]"
  assume "startswith (rev (strip s [c])) [c]"
  then obtain r where r: "dropWhile ?P (rev (dropWhile ?P s)) = c # r"
    by (auto simp: startswith_iff strip_def)
  then have "hd (dropWhile ?P (rev (dropWhile ?P s))) = c"
    and "dropWhile ?P (rev (dropWhile ?P s)) \<noteq> []" by simp_all
  then show False using hd_dropWhile[of ?P "rev (dropWhile ?P s)"] by simp
qed

text \<open>
  C4, as stated: the key would contain no non-alphanumeric character other than the
  underscore. The name \<open>Load (incl. self-consumption)\<close> keeps its full stop, where the
  wording of the specification gives an underscore.
\<close>

theorem key_nonalnum_counterexample:
  "key (series_named ''Load (incl. self-consumption)'') = ''load_incl._self_consumption''
   \<and> key_as_specified ''Load (incl. self-consumption)'' = ''load_incl_self_consumption''
   \<and> CHR ''.'' \<in> set (key (series_named ''Load (incl. self-consumption)''))
   \<and> \<not> isalnum CHR ''.'' \<and> CHR ''.'' \<noteq> CHR ''_''"
  by code_simp

lemma key_unfold:
  "key s = strip (squeeze_underscores
       (filter (\<lambda>c. c \<notin> set ''(),'')
          (map (\<lambda>c. if c \<in> set '' /-'' then CHR ''_'' else c) (lower (name_en s))))) ''_''"
proof -
  have m: "replace (replace (replace n '' '' ''_'') ''/'' ''_'') ''-'' ''_''
      = map (\<lambda>c. if c \<in> set '' /-'' then CHR ''_'' else c) n" for n
    by (simp add: replace_char_char)
  have f: "replace (replace (replace n ''('' []) '')'' []) '','' []
      = filter (\<lambda>c. c \<notin> set ''(),'') n" for n
    by (simp add: replace_char_empty)
  show ?thesis
    by (simp only: key_def Let_def m f dedup_underscores_squeeze)
qed

text \<open>
  C4, amended: the key is the English name lowercased, with every space, slash and hyphen
  replaced by an underscore, parentheses and commas removed, every run of underscores
  squeezed to one and the underscores at both ends trimmed. It contains no space, slash,
  hyphen, parenthesis or comma and no two adjacent underscores, and neither begins nor
  ends with an underscore. Other characters stay as they are.
\<close>

theorem key_derivation:
  "key s = strip (squeeze_underscores
       (filter (\<lambda>c. c \<notin> set ''(),'')
          (map (\<lambda>c. if c \<in> set '' /-'' then CHR ''_'' else c) (lower (name_en s))))) ''_''
   \<and> set (key s) \<inter> set '' /-(),'' = {}
   \<and> \<not> contains ''__'' (key s)
   \<and> \<not> startswith (key s) ''_''
   \<and> \<not> startswith (rev (key s)) ''_''"
proof -
  let ?m = "map (\<lambda>c. if c \<in> set '' /-'' then CHR ''_'' else c) (lower (name_en s))"
  let ?f = "filter (\<lambda>c. c \<notin> set ''(),'') ?m"
  have k: "key s = strip (squeeze_underscores ?f) ''_''" by (rule key_unfold)
  have sq: "set (squeeze_underscores k) \<subseteq> set k" for k
    by (induction k rule: squeeze_underscores.induct) auto
  have "set ?f \<inter> set '' /-(),'' = {}" by auto
  with sq[of ?f] set_strip[of "squeeze_underscores ?f" "''_''"]
  have chars: "set (key s) \<inter> set '' /-(),'' = {}"
    unfolding k by blast
  have nouu: "\<not> contains ''__'' (key s)"
    unfolding k using contains_strip no_uu_squeeze by blast
  show ?thesis
    using k chars nouu strip_no_leading[of "squeeze_underscores ?f" "CHR ''_''"]
      strip_no_trailing[of "squeeze_underscores ?f" "CHR ''_''"]
    by (simp only: k simp_thms)
qed

theorem key_derivation_witness:
  "name_en (series_named ''Fossil brown coal / lignite'') = ''Fossil brown coal / lignite''
   \<and> key (series_named ''Fossil brown coal / lignite'') = ''fossil_brown_coal_lignite''
   \<and> set (key (series_named ''Fossil brown coal / lignite'')) \<inter> set '' /-(),'' = {}"
proof -
  let ?s = "series_named ''Fossil brown coal / lignite''"
  have n: "name_en ?s = ''Fossil brown coal / lignite''" by code_simp
  have v: "strip (squeeze_underscores
       (filter (\<lambda>c. c \<notin> set ''(),'')
          (map (\<lambda>c. if c \<in> set '' /-'' then CHR ''_'' else c)
             (lower ''Fossil brown coal / lignite'')))) ''_'' = ''fossil_brown_coal_lignite''"
    by code_simp
  from key_derivation[of ?s] have k: "key ?s = ''fossil_brown_coal_lignite''"
    unfolding n v by blast
  from key_derivation[of ?s] have d: "set (key ?s) \<inter> set '' /-(),'' = {}" by blast
  from n k d show ?thesis by blast
qed

subsection \<open>Name normalization\<close>



subsection \<open>Timestamps and values of a parsed series\<close>

text \<open>
  C5, as stated: every series built from a raw response would have as many timestamps as
  values. A response whose only object has two \<open>xAxisValues\<close> and one data value
  gives a series with two timestamps and one value.
\<close>

theorem series_lengths_counterexample:
  "from_api_response
     [\<lparr>item_name = Some (Mapping [(''en'', ''Solar'')]), item_color = Some ''#ffcc00'',
       item_data = Some [Some 10], item_xAxisValues = Some [1000, 2000],
       item_visible = Some True\<rparr>]
   = Inr \<lparr>data_series =
       [\<lparr>name = [(''en'', ''Solar'')], color = ''#ffcc00'', data = [Some 10],
         timestamps = [1000, 2000], visible = True\<rparr>]\<rparr>
   \<and> length [1000, 2000 :: int] \<noteq> length [Some (10 :: rat)]"
  by (simp add: from_api_response_def make_series_def)

lemma parse_items_series:
  "parse_items ts items = Inr ss \<Longrightarrow> s \<in> set ss \<Longrightarrow>
     timestamps s = ts \<and> (\<exists>item \<in> set items. item_name item \<noteq> None \<and> item_data item = Some (data s))"
proof (induction items arbitrary: ss)
  case Nil
  then show ?case by simp
next
  case (Cons item items)
  show ?case
  proof (cases "item_name item")
    case None
    with Cons.prems have "parse_items ts items = Inr ss" by simp
    from Cons.IH[OF this Cons.prems(2)] show ?thesis by auto
  next
    case (Some n)
    note n = this
    show ?thesis
    proof (cases "item_data item")
      case None
      with n Cons.prems have "parse_items ts items = Inr ss" by simp
      from Cons.IH[OF this Cons.prems(2)] show ?thesis by auto
    next
      case (Some d)
      with n Cons.prems obtain s0 ss0 where
        s0: "make_series n (case item_color item of None \<Rightarrow> ''#000000'' | Some c \<Rightarrow> c) d ts
               (case item_visible item of None \<Rightarrow> True | Some v \<Rightarrow> v) = Inr s0"
        and ss0: "parse_items ts items = Inr ss0" and ss: "ss = s0 # ss0"
        by (auto split: sum.splits)
      from s0 have "timestamps s0 = ts \<and> data s0 = d"
        by (auto simp: make_series_def split: raw_name.splits)
      with Cons.IH[OF ss0] Cons.prems(2) ss n Some show ?thesis by auto
    qed
  qed
qed

text \<open>
  C5, amended: every series built from a raw response has the \<open>xAxisValues\<close> of the
  first raw object as its timestamps (none when the first object has no such field) and
  the data of a raw object that has a name as its values; the two lengths agree whenever
  every data sequence of the response is as long as the first object's \<open>xAxisValues\<close>.
\<close>

theorem series_timestamps_shared:
  assumes "from_api_response response_data = Inr r" and "s \<in> set (data_series r)"
  shows "timestamps s = first_xAxisValues response_data
    \<and> (\<exists>item \<in> set response_data. item_name item \<noteq> None \<and> item_data item = Some (data s))
    \<and> ((\<forall>item \<in> set response_data. \<forall>d. item_data item = Some d \<longrightarrow>
            length d = length (first_xAxisValues response_data))
         \<longrightarrow> length (timestamps s) = length (data s))"
proof -
  from assms obtain ss where
    p: "parse_items (first_xAxisValues response_data) response_data = Inr ss"
    and r: "data_series r = ss"
    by (auto simp: from_api_response_def first_xAxisValues_def split: list.splits sum.splits)
  from parse_items_series[OF p] assms(2) r
  have a: "timestamps s = first_xAxisValues response_data"
    and b: "\<exists>item \<in> set response_data. item_name item \<noteq> None \<and> item_data item = Some (data s)"
    by auto
  from a b show ?thesis by auto
qed

theorem series_timestamps_shared_witness:
  "from_api_response two_series_response = Inr \<lparr>data_series = two_series_parsed\<rparr>
   \<and> two_series_parsed ! 1 \<in> set two_series_parsed
   \<and> timestamps (two_series_parsed ! 1) = first_xAxisValues two_series_response
   \<and> length (timestamps (two_series_parsed ! 1)) = length (data (two_series_parsed ! 1))
   \<and> length (data (two_series_parsed ! 1)) = 2"
proof -
  have h1: "from_api_response two_series_response = Inr \<lparr>data_series = two_series_parsed\<rparr>"
    by (simp add: from_api_response_def two_series_response_def two_series_parsed_def
        make_series_def)
  have h2: "two_series_parsed ! 1 \<in> set (data_series \<lparr>data_series = two_series_parsed\<rparr>)"
    by (simp add: two_series_parsed_def)
  have h3: "\<forall>item \<in> set two_series_response. \<forall>d. item_data item = Some d \<longrightarrow>
      length d = length (first_xAxisValues two_series_response)"
    by (simp add: two_series_response_def first_xAxisValues_def)
  have d: "length (data (two_series_parsed ! 1)) = 2"
    by (simp add: two_series_parsed_def)
  note t = series_timestamps_shared[OF h1 h2]
  from t have a: "timestamps (two_series_parsed ! 1) = first_xAxisValues two_series_response"
    by blast
  from t h3 have c: "length (timestamps (two_series_parsed ! 1)) = length (data (two_series_parsed ! 1))"
    by blast
  from h2 have h2': "two_series_parsed ! 1 \<in> set two_series_parsed" by simp
  from h1 h2' a c d show ?thesis by blast
qed

subsection \<open>Retry, backoff and failure classification\<close>

declare attempts.simps [simp del]

lemma attempts_trace:
  "int a < r \<Longrightarrow>
   \<exists>n. a \<le> n \<and> int n < r
     \<and> gets (snd (attempts sess url r bf a le st))
         = gets st @ map (\<lambda>i. (url, API_TIMEOUT * (int i + 1))) [a..<Suc n]
     \<and> sleeps (snd (attempts sess url r bf a le st))
         = sleeps st @ map (\<lambda>i. bf * 2 ^ i) [a..<n]"
proof (induction sess url r bf a le st rule: attempts.induct)
  case (1 sess url retries bf attempt le st)
  let ?st1 = "st\<lparr>gets := gets st @ [(url, API_TIMEOUT * (int attempt + 1))]\<rparr>"
  show ?case
  proof (cases "try_request (sess (length (gets st)) url)")
    case (Inl res)
    with 1(2) have "attempts sess url retries bf attempt le st = (res, ?st1)"
      by (subst attempts.simps) (simp add: Let_def)
    with 1(2) show ?thesis by (intro exI[of _ attempt]) simp
  next
    case (Inr e)
    let ?st2 = "if int attempt < retries - 1
                then ?st1\<lparr>sleeps := sleeps ?st1 @ [bf * 2 ^ attempt]\<rparr> else ?st1"
    have eq: "attempts sess url retries bf attempt le st
        = attempts sess url retries bf (Suc attempt) (Some e) ?st2"
      using 1(2) Inr by (subst attempts.simps) (simp add: Let_def)
    show ?thesis
    proof (cases "int attempt < retries - 1")
      case True
      then have "int (Suc attempt) < retries" by simp
      from 1(1)[OF 1(2) refl Inr this] obtain n where
        n: "Suc attempt \<le> n" "int n < retries"
        "gets (snd (attempts sess url retries bf (Suc attempt) (Some e) ?st2))
           = gets ?st2 @ map (\<lambda>i. (url, API_TIMEOUT * (int i + 1))) [Suc attempt..<Suc n]"
        "sleeps (snd (attempts sess url retries bf (Suc attempt) (Some e) ?st2))
           = sleeps ?st2 @ map (\<lambda>i. bf * 2 ^ i) [Suc attempt..<n]"
        by blast
      from n(1) have u2: "[attempt..<n] = attempt # [Suc attempt..<n]"
        by (simp add: upt_conv_Cons)
      from n True show ?thesis
        unfolding eq by (intro exI[of _ n]) (simp add: u2)
    next
      case False
      then have "\<not> int (Suc attempt) < retries" by simp
      then have "attempts sess url retries bf (Suc attempt) (Some e) ?st2 = (Inl e, ?st2)"
        by (subst attempts.simps) simp
      with False 1(2) show ?thesis
        unfolding eq by (intro exI[of _ attempt]) simp
    qed
  qed
qed

lemma attempts_404:
  "int a < r \<Longrightarrow> sess (length (gets st)) url = Status404 \<Longrightarrow>
   attempts sess url r bf a le st
     = (Inl EnergyChartsNotFoundError, st\<lparr>gets := gets st @ [(url, API_TIMEOUT * (int a + 1))]\<rparr>)"
  by (subst attempts.simps) (simp add: Let_def)

lemma attempts_ok:
  "int a < r \<Longrightarrow> sess (length (gets st)) url = BodyList d \<Longrightarrow>
   attempts sess url r bf a le st
     = (Inr d, st\<lparr>gets := gets st @ [(url, API_TIMEOUT * (int a + 1))]\<rparr>)"
  by (subst attempts.simps) (simp add: Let_def)

lemma attempts_timeout:
  "int a < r - 1 \<Longrightarrow> sess (length (gets st)) url = AsyncioTimeout \<Longrightarrow>
   attempts sess url r bf a le st
     = attempts sess url r bf (Suc a) (Some EnergyChartsTimeoutError)
         (st\<lparr>gets := gets st @ [(url, API_TIMEOUT * (int a + 1))],
             sleeps := sleeps st @ [bf * 2 ^ a]\<rparr>)"
  by (subst attempts.simps) (simp add: Let_def)

lemma make_request_404:
  assumes "0 < retries"
    and "client_session c (length (gets st)) (request_url c endpoint) = Status404"
  shows "make_request c endpoint retries bf st
     = (Inl EnergyChartsNotFoundError, st\<lparr>gets := gets st @ [(request_url c endpoint, 30)]\<rparr>)"
  using assms by (simp add: make_request_def attempts_404 API_TIMEOUT_def)

lemma make_request_timeout_timeout_ok:
  assumes "3 \<le> retries"
    and "client_session c (length (gets st)) (request_url c endpoint) = AsyncioTimeout"
    and "client_session c (length (gets st) + 1) (request_url c endpoint) = AsyncioTimeout"
    and "client_session c (length (gets st) + 2) (request_url c endpoint) = BodyList d"
  shows "make_request c endpoint retries bf st
     = (Inr d, st\<lparr>gets := gets st @ [(request_url c endpoint, 30), (request_url c endpoint, 60),
                                      (request_url c endpoint, 90)],
                  sleeps := sleeps st @ [bf * 2 ^ 0, bf * 2 ^ 1]\<rparr>)"
proof -
  let ?u = "request_url c endpoint"
  let ?s = "client_session c"
  let ?st1 = "st\<lparr>gets := gets st @ [(?u, API_TIMEOUT * (int 0 + 1))],
             sleeps := sleeps st @ [bf * 2 ^ 0]\<rparr>"
  let ?st2 = "?st1\<lparr>gets := gets ?st1 @ [(?u, API_TIMEOUT * (int (Suc 0) + 1))],
             sleeps := sleeps ?st1 @ [bf * 2 ^ (Suc 0)]\<rparr>"
  have 1: "attempts ?s ?u retries bf 0 None st
      = attempts ?s ?u retries bf (Suc 0) (Some EnergyChartsTimeoutError) ?st1"
    using assms(1,2) by (intro attempts_timeout) simp_all
  have 2: "attempts ?s ?u retries bf (Suc 0) (Some EnergyChartsTimeoutError) ?st1
      = attempts ?s ?u retries bf (Suc (Suc 0)) (Some EnergyChartsTimeoutError) ?st2"
    using assms(1,3) by (intro attempts_timeout) simp_all
  have 3: "attempts ?s ?u retries bf (Suc (Suc 0)) (Some EnergyChartsTimeoutError) ?st2
      = (Inr d, ?st2\<lparr>gets := gets ?st2 @ [(?u, API_TIMEOUT * (int (Suc (Suc 0)) + 1))]\<rparr>)"
    using assms(1,4) by (intro attempts_ok) simp_all
  show ?thesis
    unfolding make_request_def 1 2 3 by (simp add: API_TIMEOUT_def)
qed

lemma get_current_week_request:
  "get_current_week c now st =
     (case make_request c (''week_'' @ str_int (fst (now_isocalendar now)) @ ''_''
              @ format_02d (fst (snd (now_isocalendar now))) @ ''.json'') 3 1 st of
        (Inl e, st') \<Rightarrow> (Inl e, st')
      | (Inr d, st') \<Rightarrow> (from_api_response d, st'))"
  by (cases "now_isocalendar now") (simp add: get_current_week_def)

text \<open>
  C2: with at least one attempt allowed, a 404 on the first attempt raises the not-found
  error after that single GET, with no retry and no sleep. With at least three attempts
  allowed (three is the default of every fetch), a timeout on attempts 1 and 2 and a list
  body on attempt 3 return that body after three GETs and exactly the two sleeps
  \<open>backoff_factor * 2 ^ 0\<close> and \<open>backoff_factor * 2 ^ 1\<close>. In every run the sleeps are
  \<open>backoff_factor * 2 ^ i\<close> for \<open>i\<close> below the number of GETs less one: one sleep between
  two attempts and none after the last. The week fetch, which uses the defaults, raises
  the not-found error in the first case and returns the parsed response in the second.
\<close>

theorem make_request_retry_policy:
  "(0 < retries \<and> client_session c (length (gets st)) (request_url c endpoint) = Status404
      \<longrightarrow> make_request c endpoint retries bf st
           = (Inl EnergyChartsNotFoundError,
              st\<lparr>gets := gets st @ [(request_url c endpoint, 30)]\<rparr>))
   \<and> (3 \<le> retries
        \<and> client_session c (length (gets st)) (request_url c endpoint) = AsyncioTimeout
        \<and> client_session c (length (gets st) + 1) (request_url c endpoint) = AsyncioTimeout
        \<and> client_session c (length (gets st) + 2) (request_url c endpoint) = BodyList d
      \<longrightarrow> make_request c endpoint retries bf st
           = (Inr d,
              st\<lparr>gets := gets st @ [(request_url c endpoint, 30), (request_url c endpoint, 60),
                                    (request_url c endpoint, 90)],
                 sleeps := sleeps st @ [bf * 2 ^ 0, bf * 2 ^ 1]\<rparr>))
   \<and> (0 < retries
      \<longrightarrow> (\<exists>n. int n < retries
             \<and> length (gets (snd (make_request c endpoint retries bf st)))
                 = length (gets st) + Suc n
             \<and> sleeps (snd (make_request c endpoint retries bf st))
                 = sleeps st @ map (\<lambda>i. bf * 2 ^ i) [0..<n]))
   \<and> (endpoint = ''week_'' @ str_int (fst (now_isocalendar now)) @ ''_''
                     @ format_02d (fst (snd (now_isocalendar now))) @ ''.json''
        \<and> client_session c (length (gets st)) (request_url c endpoint) = Status404
      \<longrightarrow> get_current_week c now st
           = (Inl EnergyChartsNotFoundError,
              st\<lparr>gets := gets st @ [(request_url c endpoint, 30)]\<rparr>))
   \<and> (endpoint = ''week_'' @ str_int (fst (now_isocalendar now)) @ ''_''
                     @ format_02d (fst (snd (now_isocalendar now))) @ ''.json''
        \<and> client_session c (length (gets st)) (request_url c endpoint) = AsyncioTimeout
        \<and> client_session c (length (gets st) + 1) (request_url c endpoint) = AsyncioTimeout
        \<and> client_session c (length (gets st) + 2) (request_url c endpoint) = BodyList d
      \<longrightarrow> get_current_week c now st
           = (from_api_response d,
              st\<lparr>gets := gets st @ [(request_url c endpoint, 30), (request_url c endpoint, 60),
                                    (request_url c endpoint, 90)],
                 sleeps := sleeps st @ [1 * 2 ^ 0, 1 * 2 ^ 1]\<rparr>))"
proof (intro conjI impI)
  assume "0 < retries \<and> client_session c (length (gets st)) (request_url c endpoint) = Status404"
  then show "make_request c endpoint retries bf st
      = (Inl EnergyChartsNotFoundError, st\<lparr>gets := gets st @ [(request_url c endpoint, 30)]\<rparr>)"
    by (simp add: make_request_404)
next
  assume "3 \<le> retries
        \<and> client_session c (length (gets st)) (request_url c endpoint) = AsyncioTimeout
        \<and> client_session c (length (gets st) + 1) (request_url c endpoint) = AsyncioTimeout
        \<and> client_session c (length (gets st) + 2) (request_url c endpoint) = BodyList d"
  then show "make_request c endpoint retries bf st
           = (Inr d,
              st\<lparr>gets := gets st @ [(request_url c endpoint, 30), (request_url c endpoint, 60),
                                    (request_url c endpoint, 90)],
                 sleeps := sleeps st @ [bf * 2 ^ 0, bf * 2 ^ 1]\<rparr>)"
    by (intro make_request_timeout_timeout_ok) simp_all
next
  assume "0 < retries"
  then have "int 0 < retries" by simp
  from attempts_trace[OF this, of "client_session c" "request_url c endpoint" bf None st]
  obtain n where "int n < retries"
    and g: "gets (snd (make_request c endpoint retries bf st))
      = gets st @ map (\<lambda>i. (request_url c endpoint, API_TIMEOUT * (int i + 1))) [0..<Suc n]"
    and "sleeps (snd (make_request c endpoint retries bf st))
      = sleeps st @ map (\<lambda>i. bf * 2 ^ i) [0..<n]"
    unfolding make_request_def by blast
  moreover from g have "length (gets (snd (make_request c endpoint retries bf st)))
      = length (gets st) + Suc n"
    by simp
  ultimately show "\<exists>n. int n < retries
             \<and> length (gets (snd (make_request c endpoint retries bf st)))
                 = length (gets st) + Suc n
             \<and> sleeps (snd (make_request c endpoint retries bf st))
                 = sleeps st @ map (\<lambda>i. bf * 2 ^ i) [0..<n]"
    by blast
next
  assume a: "endpoint = ''week_'' @ str_int (fst (now_isocalendar now)) @ ''_''
                     @ format_02d (fst (snd (now_isocalendar now))) @ ''.json''
        \<and> client_session c (length (gets st)) (request_url c endpoint) = Status404"
  then have e: "''week_'' @ str_int (fst (now_isocalendar now)) @ ''_''
                     @ format_02d (fst (snd (now_isocalendar now))) @ ''.json'' = endpoint"
    and s: "client_session c (length (gets st)) (request_url c endpoint) = Status404"
    by blast+
  have m: "make_request c endpoint 3 1 st
      = (Inl EnergyChartsNotFoundError, st\<lparr>gets := gets st @ [(request_url c endpoint, 30)]\<rparr>)"
    using make_request_404[of 3 c st endpoint 1] s by simp
  show "get_current_week c now st
           = (Inl EnergyChartsNotFoundError,
              st\<lparr>gets := gets st @ [(request_url c endpoint, 30)]\<rparr>)"
    unfolding get_current_week_request e m by simp
next
  assume a: "endpoint = ''week_'' @ str_int (fst (now_isocalendar now)) @ ''_''
                     @ format_02d (fst (snd (now_isocalendar now))) @ ''.json''
        \<and> client_session c (length (gets st)) (request_url c endpoint) = AsyncioTimeout
        \<and> client_session c (length (gets st) + 1) (request_url c endpoint) = AsyncioTimeout
        \<and> client_session c (length (gets st) + 2) (request_url c endpoint) = BodyList d"
  then have e: "''week_'' @ str_int (fst (now_isocalendar now)) @ ''_''
                     @ format_02d (fst (snd (now_isocalendar now))) @ ''.json'' = endpoint"
    and s: "client_session c (length (gets st)) (request_url c endpoint) = AsyncioTimeout"
      "client_session c (length (gets st) + 1) (request_url c endpoint) = AsyncioTimeout"
      "client_session c (length (gets st) + 2) (request_url c endpoint) = BodyList d"
    by blast+
  have m: "make_request c endpoint 3 1 st
      = (Inr d,
              st\<lparr>gets := gets st @ [(request_url c endpoint, 30), (request_url c endpoint, 60),
                                    (request_url c endpoint, 90)],
                 sleeps := sleeps st @ [1 * 2 ^ 0, 1 * 2 ^ 1]\<rparr>)"
    using make_request_timeout_timeout_ok[of 3 c st endpoint d 1] s by simp
  show "get_current_week c now st
           = (from_api_response d,
              st\<lparr>gets := gets st @ [(request_url c endpoint, 30), (request_url c endpoint, 60),
                                    (request_url c endpoint, 90)],
                 sleeps := sleeps st @ [1 * 2 ^ 0, 1 * 2 ^ 1]\<rparr>)"
    unfolding get_current_week_request e m by simp
qed

theorem make_request_retry_policy_witness:
  "make_request (init_client always_404 ''DE'') ''week_2025_07.json'' 3 1 idle
     = (Inl EnergyChartsNotFoundError,
        \<lparr>gets = [(''https://www.energy-charts.info/charts/power/data/de/week_2025_07.json'', 30)],
         sleeps = []\<rparr>)
   \<and> make_request (init_client (two_timeouts_then two_series_response) ''DE'')
        ''week_2025_07.json'' 3 1 idle
     = (Inr two_series_response,
        \<lparr>gets = [(''https://www.energy-charts.info/charts/power/data/de/week_2025_07.json'', 30),
                 (''https://www.energy-charts.info/charts/power/data/de/week_2025_07.json'', 60),
                 (''https://www.energy-charts.info/charts/power/data/de/week_2025_07.json'', 90)],
         sleeps = [1, 2]\<rparr>)
   \<and> get_current_week (init_client always_404 ''DE'') monday_week_7 idle
     = (Inl EnergyChartsNotFoundError,
        \<lparr>gets = [(''https://www.energy-charts.info/charts/power/data/de/week_2025_07.json'', 30)],
         sleeps = []\<rparr>)
   \<and> get_current_week (init_client (two_timeouts_then two_series_response) ''DE'')
        monday_week_7 idle
     = (Inr \<lparr>data_series = two_series_parsed\<rparr>,
        \<lparr>gets = [(''https://www.energy-charts.info/charts/power/data/de/week_2025_07.json'', 30),
                 (''https://www.energy-charts.info/charts/power/data/de/week_2025_07.json'', 60),
                 (''https://www.energy-charts.info/charts/power/data/de/week_2025_07.json'', 90)],
         sleeps = [1, 2]\<rparr>)"
proof -
  let ?c1 = "init_client always_404 ''DE''"
  let ?c2 = "init_client (two_timeouts_then two_series_response) ''DE''"
  let ?e = "''week_2025_07.json''"
  have u: "request_url (init_client s ''DE'') ?e
      = ''https://www.energy-charts.info/charts/power/data/de/week_2025_07.json''" for s
  proof -
    have "lower ''DE'' = ''de''" by code_simp
    then show ?thesis by (simp add: request_url_def init_client_def API_BASE_URL_def)
  qed
  have w: "?e = ''week_'' @ str_int (fst (now_isocalendar monday_week_7)) @ ''_''
      @ format_02d (fst (snd (now_isocalendar monday_week_7))) @ ''.json''"
    by code_simp
  have p: "from_api_response two_series_response = Inr \<lparr>data_series = two_series_parsed\<rparr>"
    by code_simp
  have h1: "(0::int) < 3 \<and> client_session ?c1 (length (gets idle)) (request_url ?c1 ?e) = Status404"
    by (simp add: init_client_def always_404_def)
  have h2: "(3::int) \<le> 3
      \<and> client_session ?c2 (length (gets idle)) (request_url ?c2 ?e) = AsyncioTimeout
      \<and> client_session ?c2 (length (gets idle) + 1) (request_url ?c2 ?e) = AsyncioTimeout
      \<and> client_session ?c2 (length (gets idle) + 2) (request_url ?c2 ?e)
          = BodyList two_series_response"
    by (simp add: init_client_def two_timeouts_then_def idle_def)
  note t1 = make_request_retry_policy[where retries = 3 and c = ?c1 and st = idle
      and endpoint = ?e and bf = 1 and now = monday_week_7]
  note t2 = make_request_retry_policy[where retries = 3 and c = ?c2 and st = idle
      and endpoint = ?e and bf = 1 and d = two_series_response and now = monday_week_7]
  from t1 h1
  have a: "make_request ?c1 ?e 3 1 idle
      = (Inl EnergyChartsNotFoundError, idle\<lparr>gets := gets idle @ [(request_url ?c1 ?e, 30)]\<rparr>)"
    by blast
  from t2 h2
  have b: "make_request ?c2 ?e 3 1 idle
      = (Inr two_series_response,
         idle\<lparr>gets := gets idle @ [(request_url ?c2 ?e, 30), (request_url ?c2 ?e, 60),
                                   (request_url ?c2 ?e, 90)],
              sleeps := sleeps idle @ [1 * 2 ^ 0, 1 * 2 ^ 1]\<rparr>)"
    by blast
  from t1 h1 w
  have c: "get_current_week ?c1 monday_week_7 idle
      = (Inl EnergyChartsNotFoundError, idle\<lparr>gets := gets idle @ [(request_url ?c1 ?e, 30)]\<rparr>)"
    by blast
  from t2 h2 w
  have d: "get_current_week ?c2 monday_week_7 idle
      = (from_api_response two_series_response,
         idle\<lparr>gets := gets idle @ [(request_url ?c2 ?e, 30), (request_url ?c2 ?e, 60),
                                   (request_url ?c2 ?e, 90)],
              sleeps := sleeps idle @ [1 * 2 ^ 0, 1 * 2 ^ 1]\<rparr>)"
    by blast
  show ?thesis
    unfolding a b c d p u by (simp add: idle_def)
qed

subsection \<open>Day window and week window\<close>

declare str_nat.simps [simp del]

lemma length_format_02d: "1 \<le> w \<Longrightarrow> w \<le> 53 \<Longrightarrow> length (format_02d w) = 2"
proof -
  assume w: "1 \<le> w" "w \<le> 53"
  have one: "n < 10 \<Longrightarrow> length (str_nat n) = 1" for n
    by (subst str_nat.simps) simp
  show ?thesis
  proof (cases "w < 10")
    case True
    with w have "nat w < 10" by simp
    with True w show ?thesis by (simp add: format_02d_def str_int_def one)
  next
    case False
    with w have "\<not> nat w < 10" and "nat w div 10 < 10" by auto
    then have "length (str_nat (nat w)) = 2"
      by (subst str_nat.simps) (simp add: one)
    with False w show ?thesis by (simp add: format_02d_def str_int_def)
  qed
qed

text \<open>
  C7: for the same clock reading, client and state, the day fetch and the week fetch are
  the same operation: they give the same result and the same effects, and every GET they
  issue (one to three) goes to the path \<open>week_<ISO year>_<ISO week>.json\<close> of the
  current ISO week, whose week number is written with two digits.
\<close>

theorem day_week_same_endpoint:
  "get_current_day c now st = get_current_week c now st
   \<and> (\<exists>k. 1 \<le> k \<and> k \<le> 3
        \<and> map fst (gets (snd (get_current_day c now st)))
            = map fst (gets st)
              @ replicate k (request_url c (''week_'' @ str_int (fst (now_isocalendar now)) @ ''_''
                  @ format_02d (fst (snd (now_isocalendar now))) @ ''.json'')))
   \<and> (1 \<le> fst (snd (now_isocalendar now)) \<and> fst (snd (now_isocalendar now)) \<le> 53
        \<longrightarrow> length (format_02d (fst (snd (now_isocalendar now)))) = 2)"
proof -
  obtain y w d where iso: "now_isocalendar now = (y, w, d)" by (cases "now_isocalendar now")
  let ?e = "''week_'' @ str_int y @ ''_'' @ format_02d w @ ''.json''"
  have "int 0 < 3" by simp
  from attempts_trace[OF this, of "client_session c" "request_url c ?e" 1 None st]
  obtain n where n: "int n < 3"
    and g: "gets (snd (make_request c ?e 3 1 st))
      = gets st @ map (\<lambda>i. (request_url c ?e, API_TIMEOUT * (int i + 1))) [0..<Suc n]"
    unfolding make_request_def by blast
  have s: "snd (get_current_day c now st) = snd (make_request c ?e 3 1 st)"
    by (simp add: get_current_day_def iso split: prod.splits sum.splits)
  have m: "map fst (map (\<lambda>i. (u, f i)) xs) = replicate (length xs) u" for u :: string and f :: "nat \<Rightarrow> int" and xs
    by (induction xs) simp_all
  from g have "map fst (gets (snd (get_current_day c now st)))
      = map fst (gets st) @ replicate (Suc n) (request_url c ?e)"
    unfolding s by (simp only: map_append m length_upt) simp
  moreover from n have "1 \<le> Suc n \<and> Suc n \<le> 3" by simp
  ultimately have "\<exists>k. 1 \<le> k \<and> k \<le> 3
        \<and> map fst (gets (snd (get_current_day c now st)))
            = map fst (gets st) @ replicate k (request_url c ?e)"
    by blast
  moreover have "get_current_day c now st = get_current_week c now st"
    by (simp add: get_current_day_def get_current_week_def)
  ultimately show ?thesis
    using length_format_02d[of w] by (simp add: iso)
qed

theorem day_week_same_endpoint_witness:
  "get_current_day (init_client always_404 ''DE'') monday_week_7 idle
     = get_current_week (init_client always_404 ''DE'') monday_week_7 idle
   \<and> get_current_week (init_client always_404 ''DE'') monday_week_7 idle
     = (Inl EnergyChartsNotFoundError,
        \<lparr>gets = [(''https://www.energy-charts.info/charts/power/data/de/week_2025_07.json'', 30)],
         sleeps = []\<rparr>)
   \<and> 1 \<le> fst (snd (now_isocalendar monday_week_7))
   \<and> fst (snd (now_isocalendar monday_week_7)) \<le> 53
   \<and> length (format_02d (fst (snd (now_isocalendar monday_week_7)))) = 2"
proof -
  have h: "1 \<le> fst (snd (now_isocalendar monday_week_7))
      \<and> fst (snd (now_isocalendar monday_week_7)) \<le> 53"
    by (simp add: monday_week_7_def)
  have e: "get_current_week (init_client always_404 ''DE'') monday_week_7 idle
     = (Inl EnergyChartsNotFoundError,
        \<lparr>gets = [(''https://www.energy-charts.info/charts/power/data/de/week_2025_07.json'', 30)],
         sleeps = []\<rparr>)"
    by code_simp
  from day_week_same_endpoint[of "init_client always_404 ''DE''" monday_week_7 idle] h e
  show ?thesis by simp
qed

subsection \<open>Aggregated totals\<close>

lemma aggregate_loop_sums:
  "aggregate_loop srcs (tp, tr, tf, tn) =
     (tp + production_sum srcs,
      tr + category_sum CATEGORY_RENEWABLE srcs,
      tf + category_sum CATEGORY_FOSSIL srcs,
      tn + category_sum CATEGORY_NUCLEAR srcs)"
proof (induction srcs arbitrary: tp tr tf tn)
  case Nil
  then show ?case by (simp add: production_sum_def category_sum_def)
next
  case (Cons p srcs)
  obtain k sd where p: "p = (k, sd)" by (cases p)
  have c: "CATEGORY_RENEWABLE \<noteq> CATEGORY_FOSSIL" "CATEGORY_RENEWABLE \<noteq> CATEGORY_NUCLEAR"
    "CATEGORY_FOSSIL \<noteq> CATEGORY_NUCLEAR"
    by (simp_all add: CATEGORY_RENEWABLE_def CATEGORY_FOSSIL_def CATEGORY_NUCLEAR_def)
  show ?case
  proof (cases "src_value sd")
    case None
    then show ?thesis
      unfolding p by (simp add: Cons.IH production_sum_def category_sum_def)
  next
    case (Some v)
    then show ?thesis
      unfolding p using c
      by (simp add: Cons.IH production_sum_def category_sum_def Let_def)
  qed
qed




lemma production_sum_nonneg: "0 \<le> production_sum srcs"
  unfolding production_sum_def
  by (rule sum_list_nonneg) (auto split: option.splits)




text \<open>
  C8: only the production total filters its addends to the positive values; the renewable,
  fossil and nuclear totals add the values of their category whatever their sign. With
  solar at -10 and fossil gas at 20 the renewable total is -10 and the renewable share is
  -50, a negative share.
\<close>

theorem renewable_total_keeps_sign:
  "aggregate_loop srcs (0, 0, 0, 0)
     = (production_sum srcs, category_sum ''renewable'' srcs, category_sum ''fossil'' srcs,
        category_sum ''nuclear'' srcs)
   \<and> map (\<lambda>(k, sd). (k, src_value sd, src_category sd)) negative_sources
     = [(''solar'', Some (- 10), ''renewable''), (''fossil_gas'', Some 20, ''fossil'')]
   \<and> calculate_aggregated negative_sources
     = [(''total_production'', 20), (''total_renewable'', - 10), (''total_fossil'', 20),
        (''total_nuclear'', 0), (''renewable_share'', - 50)]
   \<and> dict_get (calculate_aggregated negative_sources) ''renewable_share'' 0 < 0"
proof -
  have a: "aggregate_loop srcs (0, 0, 0, 0)
     = (production_sum srcs, category_sum ''renewable'' srcs, category_sum ''fossil'' srcs,
        category_sum ''nuclear'' srcs)"
    by (simp add: aggregate_loop_sums CATEGORY_RENEWABLE_def CATEGORY_FOSSIL_def
        CATEGORY_NUCLEAR_def)
  have b: "map (\<lambda>(k, sd). (k, src_value sd, src_category sd)) negative_sources
     = [(''solar'', Some (- 10), ''renewable''), (''fossil_gas'', Some 20, ''fossil'')]"
    by code_simp
  have c: "calculate_aggregated negative_sources
     = [(''total_production'', 20), (''total_renewable'', - 10), (''total_fossil'', 20),
        (''total_nuclear'', 0), (''renewable_share'', - 50)]"
    by code_simp
  have d: "dict_get (calculate_aggregated negative_sources) ''renewable_share'' 0 < 0"
    unfolding c by (simp add: dict_get_def)
  from a b c d show ?thesis by blast
qed

subsection \<open>Keys of the results\<close>




subsection \<open>The refresh and its history\<close>

text \<open>
  C1: a successful refresh with a historical range of day, week or month would publish,
  for each series, its (timestamp, value) pairs. With the range \<open>week\<close> and a response
  holding the series Solar with the value 10 at the timestamp 1000, the refresh succeeds
  and publishes an empty history, where the pairs of the series are
  \<open>[(FromTimestamp 1, 10)]\<close>: unpacking the first value raises, the exception is caught
  and the history filled so far, which is empty, is returned.
\<close>

theorem history_not_filled:
  "from_api_response solar_response = Inr solar_parsed
   \<and> history_as_specified solar_parsed = [(''solar'', [(FromTimestamp 1, 10)])]
   \<and> (case fst (async_update_data (init_client always_solar ''de'')
                  [(''historical_data_range'', ''week'')]
                  monday_week_7 monday_week_7 monday_week_7 idle) of
         Inl failure \<Rightarrow> None
       | Inr snap \<Rightarrow> Some (raw_response snap, history snap))
       = Some (solar_parsed, [])"
  by code_simp



end
